theory Spec2Isabelle
  imports Main "HOL-Library.Char_ord" "HOL-Library.List_Lexorder" "HOL-Library.AList"
    "HOL-Library.Multiset"
begin

section \<open>Shared data: errors, arrays, files, configuration (utils.py)\<close>

text \<open>
  The scripts communicate through the features directory only. A directory is an
  association list from file names to contents, in the order the operating system lists
  them; an array file holds a two-dimensional array (its column count and its rows), a
  table file holds the single column \<open>photo_id\<close>. Every Python exception is a value of
  type \<open>error\<close>. The 32-bit floating-point numbers of the arrays are the values of an
  arbitrary type \<open>'a\<close>: nothing is assumed about their arithmetic or their order, and the
  library functions that compute with them belong to the environment.
\<close>

datatype error =
  ValueError | IndexError | ZeroDivisionError | OSError | EOFError | FileNotFoundError
  | EncoderError

datatype 'a ndarray = NDArray (ncols: nat) (rows: "'a list list")

datatype 'a artifact = Npy "'a ndarray" | Csv "string list"

type_synonym 'a dir = "(string \<times> 'a artifact) list"

text \<open>The values read from \<open>config.yaml\<close> that the two scripts use.\<close>

record config =
  batch_size :: nat
  ext_list :: "string list"
  display_num :: nat

text \<open>
  What a write does is decided by the environment: it completes, or it raises and leaves
  the path as it was (\<open>Raises None\<close>) or holding some partial content (\<open>Raises (Some g)\<close>).
\<close>

datatype 'a outcome = Done | Raises "'a artifact option"

text \<open>
  The external collaborators, none of them code of the repository:
  \<^item> the two encoder functions of utils.py (model inference);
  \<^item> \<open>photos_glob e\<close>, the paths that \<open>photos_path.glob(e)\<close> yields for a pattern \<open>e\<close> of
    \<open>ext_list\<close>, in the order of the operating system, or the exception it raises;
  \<^item> \<open>resolve\<close>, the resolved path as a string;
  \<^item> \<open>np_save\<close> and \<open>to_csv\<close>, the outcome of a write to each path;
  \<^item> \<open>matmul_entry q m r\<close>, entry \<open>r\<close> of the float32 product of the 1-by-D array \<open>q\<close>
    with the transpose of \<open>m\<close>, as numpy computes it;
  \<^item> \<open>sorted_reverse\<close>, the builtin \<open>sorted(pairs, key=lambda x: x[0], reverse=True)\<close> on
    pairs of a float32 and a row index, as CPython computes it.
\<close>

record 'a io =
  compute_image_features :: "string list \<Rightarrow> error + 'a ndarray"
  compute_text_feature :: "string \<Rightarrow> error + 'a list"
  photos_glob :: "string \<Rightarrow> error + string list"
  resolve :: "string \<Rightarrow> string"
  np_save :: "string \<Rightarrow> 'a outcome"
  to_csv :: "string \<Rightarrow> 'a outcome"
  matmul_entry :: "'a list \<Rightarrow> 'a ndarray \<Rightarrow> nat \<Rightarrow> 'a"
  sorted_reverse :: "('a \<times> nat) list \<Rightarrow> ('a \<times> nat) list"

definition path_exists :: "string \<Rightarrow> 'a dir \<Rightarrow> bool" where
  "path_exists p d = (map_of d p \<noteq> None)"

definition write_file :: "'a outcome \<Rightarrow> string \<Rightarrow> 'a artifact \<Rightarrow> 'a dir \<Rightarrow> error option \<times> 'a dir" where
  "write_file oc p f d =
     (case oc of
        Done \<Rightarrow> (None, AList.update p f d)
      | Raises None \<Rightarrow> (Some OSError, d)
      | Raises (Some g) \<Rightarrow> (Some OSError, AList.update p g d))"

definition np_load :: "'a dir \<Rightarrow> string \<Rightarrow> error + 'a ndarray" where
  "np_load d p =
     (case map_of d p of
        None \<Rightarrow> Inl FileNotFoundError
      | Some (Npy a) \<Rightarrow> Inr a
      | Some (Csv ids) \<Rightarrow> Inl ValueError)"

definition read_csv :: "'a dir \<Rightarrow> string \<Rightarrow> error + string list" where
  "read_csv d p =
     (case map_of d p of
        None \<Rightarrow> Inl FileNotFoundError
      | Some (Csv ids) \<Rightarrow> Inr ids
      | Some (Npy a) \<Rightarrow> Inl ValueError)"

subsection \<open>The two globs of the features directory\<close>

text \<open>
  The merge globs the features directory with the two constant patterns \<open>*.npy\<close> and
  \<open>*.csv\<close>: a star and a literal suffix, which select the names that end with the suffix
  (file names are compared by case, as on a POSIX file system). \<open>glob_suffix d suffix\<close> is
  \<open>features_path.glob("*" + suffix)\<close> for such a suffix; the names come in the order of
  the directory, and the merge sorts them.
\<close>

definition endswith :: "string \<Rightarrow> string \<Rightarrow> bool" where
  "endswith name suffix = (take (length suffix) (rev name) = rev suffix)"

definition glob_suffix :: "'a dir \<Rightarrow> string \<Rightarrow> string list" where
  "glob_suffix d suffix = filter (\<lambda>name. endswith name suffix) (map fst d)"

section \<open>The batch embedding pipeline (process.py)\<close>

text \<open>
  Line 9: one glob of the photos directory per pattern of \<open>ext_list\<close>, the results
  concatenated in order; a glob that raises ends the script.
\<close>

fun photos_files :: "'a io \<Rightarrow> string list \<Rightarrow> error + string list" where
  "photos_files io [] = Inr []"
| "photos_files io (e # es) =
     (case photos_glob io e of
        Inl x \<Rightarrow> Inl x
      | Inr items \<Rightarrow>
          (case photos_files io es of Inl x \<Rightarrow> Inl x | Inr others \<Rightarrow> Inr (items @ others)))"

text \<open>Line 13: \<open>math.ceil(len(photos_files) / batch_size)\<close>; a zero batch size raises.\<close>

definition batches :: "nat \<Rightarrow> nat \<Rightarrow> error + nat" where
  "batches n bs = (if bs = 0 then Inl ZeroDivisionError else Inr ((n + bs - 1) div bs))"

text \<open>The format \<open>{i:010d}\<close>: decimal digits, padded with zeros on the left to width 10.\<close>

definition digit :: "nat \<Rightarrow> char" where
  "digit d = ''0123456789'' ! d"

fun decimal :: "nat \<Rightarrow> string" where
  "decimal n = (if n < 10 then [digit n] else decimal (n div 10) @ [digit (n mod 10)])"

declare decimal.simps [simp del]

definition batch_stem :: "nat \<Rightarrow> string" where
  "batch_stem i = replicate (10 - length (decimal i)) (CHR ''0'') @ decimal i"

definition batch_ids_path :: "nat \<Rightarrow> string" where
  "batch_ids_path i = batch_stem i @ ''.csv''"

definition batch_features_path :: "nat \<Rightarrow> string" where
  "batch_features_path i = batch_stem i @ ''.npy''"

text \<open>
  What the pipeline does that can be observed besides the directory: its printed lines and
  its calls of the image encoder (tagged with the batch index).
\<close>

datatype event =
  PhotosFound nat | Processing nat nat | Problem nat | EncodeImages nat "string list"

record 'a pstate =
  files :: "'a dir"
  trace :: "event list"

text \<open>Lines 24 to 31, the body of the \<open>try\<close>: the first statement that raises ends it.\<close>

definition batch_body :: "'a io \<Rightarrow> nat \<Rightarrow> string list \<Rightarrow> nat \<Rightarrow> 'a pstate \<Rightarrow> error option \<times> 'a pstate" where
  "batch_body io bs pfiles i s =
     (let batch_files = take bs (drop (i * bs) pfiles);
          s1 = s\<lparr>trace := trace s @ [EncodeImages i batch_files]\<rparr>
      in case compute_image_features io batch_files of
           Inl e \<Rightarrow> (Some e, s1)
         | Inr batch_features \<Rightarrow>
             (case write_file (np_save io (batch_features_path i)) (batch_features_path i)
                     (Npy batch_features) (files s1) of
                (Some e, d) \<Rightarrow> (Some e, s1\<lparr>files := d\<rparr>)
              | (None, d) \<Rightarrow>
                  (let photo_ids = map (resolve io) batch_files
                   in case write_file (to_csv io (batch_ids_path i)) (batch_ids_path i)
                             (Csv photo_ids) d of
                        (r, d') \<Rightarrow> (r, s1\<lparr>files := d'\<rparr>))))"

text \<open>Lines 17 to 33: one iteration of the batch loop, with its bare \<open>except\<close>.\<close>

definition batch_step :: "'a io \<Rightarrow> nat \<Rightarrow> string list \<Rightarrow> nat \<Rightarrow> nat \<Rightarrow> 'a pstate \<Rightarrow> 'a pstate" where
  "batch_step io bs pfiles n i s =
     (let s0 = s\<lparr>trace := trace s @ [Processing (i + 1) n]\<rparr>
      in if path_exists (batch_features_path i) (files s0) then s0
         else (case batch_body io bs pfiles i s0 of
                 (None, s1) \<Rightarrow> s1
               | (Some e, s1) \<Rightarrow> s1\<lparr>trace := trace s1 @ [Problem i]\<rparr>))"

definition batch_loop :: "'a io \<Rightarrow> nat \<Rightarrow> string list \<Rightarrow> nat \<Rightarrow> 'a pstate \<Rightarrow> 'a pstate" where
  "batch_loop io bs pfiles n s = fold (batch_step io bs pfiles n) [0..<n] s"

subsection \<open>The merge (lines 37 to 45)\<close>

fun load_all :: "(string \<Rightarrow> error + 'b) \<Rightarrow> string list \<Rightarrow> error + 'b list" where
  "load_all ld [] = Inr []"
| "load_all ld (p # ps) =
     (case ld p of
        Inl e \<Rightarrow> Inl e
      | Inr a \<Rightarrow> (case load_all ld ps of Inl e \<Rightarrow> Inl e | Inr as \<Rightarrow> Inr (a # as)))"

text \<open>
  \<open>np.concatenate\<close> along the first axis: it needs at least one array, and all arrays
  must agree on the other dimension.
\<close>

definition np_concatenate :: "'a ndarray list \<Rightarrow> error + 'a ndarray" where
  "np_concatenate arrs =
     (case arrs of
        [] \<Rightarrow> Inl ValueError
      | a # _ \<Rightarrow>
          if list_all (\<lambda>b. ncols b = ncols a) arrs
          then Inr (NDArray (ncols a) (concat (map rows arrs)))
          else Inl ValueError)"

definition pd_concat :: "string list list \<Rightarrow> error + string list" where
  "pd_concat frames = (case frames of [] \<Rightarrow> Inl ValueError | _ # _ \<Rightarrow> Inr (concat frames))"

definition merge :: "'a io \<Rightarrow> 'a dir \<Rightarrow> error option \<times> 'a dir" where
  "merge io d =
     (case load_all (np_load d) (sort (glob_suffix d ''.npy'')) of
        Inl e \<Rightarrow> (Some e, d)
      | Inr features_list \<Rightarrow>
          (case np_concatenate features_list of
             Inl e \<Rightarrow> (Some e, d)
           | Inr features \<Rightarrow>
               (case write_file (np_save io ''features.npy'') ''features.npy'' (Npy features) d of
                  (Some e, d1) \<Rightarrow> (Some e, d1)
                | (None, d1) \<Rightarrow>
                    (case load_all (read_csv d1) (sort (glob_suffix d1 ''.csv'')) of
                       Inl e \<Rightarrow> (Some e, d1)
                     | Inr ids_list \<Rightarrow>
                         (case pd_concat ids_list of
                            Inl e \<Rightarrow> (Some e, d1)
                          | Inr photo_ids \<Rightarrow>
                              write_file (to_csv io ''photo_ids.csv'') ''photo_ids.csv''
                                (Csv photo_ids) d1)))))"

text \<open>The whole script: enumeration, batch loop, merge.\<close>

definition process :: "config \<Rightarrow> 'a io \<Rightarrow> 'a dir \<Rightarrow> error option \<times> 'a pstate" where
  "process cfg io d =
     (case photos_files io (ext_list cfg) of
        Inl e \<Rightarrow> (Some e, \<lparr>files = d, trace = []\<rparr>)
      | Inr pfiles \<Rightarrow>
          (let s0 = \<lparr>files = d, trace = [PhotosFound (length pfiles)]\<rparr>
           in case batches (length pfiles) (batch_size cfg) of
                Inl e \<Rightarrow> (Some e, s0)
              | Inr n \<Rightarrow>
                  (let s1 = batch_loop io (batch_size cfg) pfiles n s0
                   in case merge io (files s1) of (r, d') \<Rightarrow> (r, s1\<lparr>files := d'\<rparr>))))"

section \<open>The similarity search (search.py)\<close>

text \<open>
  Line 16: the product of the 1-by-D query with the transposed n-by-D matrix, squeezed to
  a list of n similarities; the inner dimensions must agree. The values are numpy's.
\<close>

definition similarities :: "'a io \<Rightarrow> 'a list \<Rightarrow> 'a ndarray \<Rightarrow> error + 'a list" where
  "similarities io text_features photo_features =
     (if length text_features = ncols photo_features
      then Inr (map (matmul_entry io text_features photo_features)
                  [0..<length (rows photo_features)])
      else Inl ValueError)"

text \<open>Line 17: the pairs of a similarity and its row index, sorted by Python.\<close>

definition best_photos :: "'a io \<Rightarrow> 'a list \<Rightarrow> nat \<Rightarrow> ('a \<times> nat) list" where
  "best_photos io sims n = sorted_reverse io (zip sims [0..<n])"

datatype shown = Prompt | Printed string

text \<open>Lines 19 to 22: both subscripts raise \<open>IndexError\<close> out of range.\<close>

fun print_results :: "('a \<times> nat) list \<Rightarrow> string list \<Rightarrow> nat list \<Rightarrow> shown list \<Rightarrow> error option \<times> shown list" where
  "print_results bp photo_ids [] out = (None, out)"
| "print_results bp photo_ids (i # is) out =
     (if i < length bp
      then (let idx = snd (bp ! i)
            in if idx < length photo_ids
               then print_results bp photo_ids is (out @ [Printed (photo_ids ! idx)])
               else (Some IndexError, out))
      else (Some IndexError, out))"

text \<open>Lines 15 to 22: the body of the query loop for one non-empty query.\<close>

definition answer :: "'a io \<Rightarrow> 'a ndarray \<Rightarrow> string list \<Rightarrow> nat \<Rightarrow> string \<Rightarrow> shown list \<Rightarrow> error option \<times> shown list" where
  "answer io photo_features photo_ids k search_query out =
     (case compute_text_feature io search_query of
        Inl e \<Rightarrow> (Some e, out)
      | Inr text_features \<Rightarrow>
          (case similarities io text_features photo_features of
             Inl e \<Rightarrow> (Some e, out)
           | Inr sims \<Rightarrow>
               print_results (best_photos io sims (length (rows photo_features))) photo_ids
                 [0..<k] out))"

text \<open>
  Lines 13 to 24: the standard input is the list of lines still to be read; \<open>input\<close>
  prints the prompt and raises \<open>EOFError\<close> when no line is left. An exception leaves the
  loop and ends the script.
\<close>

fun query_loop :: "'a io \<Rightarrow> 'a ndarray \<Rightarrow> string list \<Rightarrow> nat \<Rightarrow> string list \<Rightarrow> shown list \<Rightarrow> error option \<times> shown list" where
  "query_loop io photo_features photo_ids k [] out = (Some EOFError, out @ [Prompt])"
| "query_loop io photo_features photo_ids k (search_query # rest) out =
     (if search_query = [] then (None, out @ [Prompt])
      else (case answer io photo_features photo_ids k search_query (out @ [Prompt]) of
              (Some e, out') \<Rightarrow> (Some e, out')
            | (None, out') \<Rightarrow> query_loop io photo_features photo_ids k rest out'))"

definition search :: "config \<Rightarrow> 'a io \<Rightarrow> 'a dir \<Rightarrow> string list \<Rightarrow> error option \<times> shown list" where
  "search cfg io d stdin =
     (case np_load d ''features.npy'' of
        Inl e \<Rightarrow> (Some e, [])
      | Inr photo_features \<Rightarrow>
          (case read_csv d ''photo_ids.csv'' of
             Inl e \<Rightarrow> (Some e, [])
           | Inr photo_ids \<Rightarrow>
               query_loop io photo_features photo_ids (display_num cfg) stdin
                 [Printed (''Photos found: '' @ decimal (length photo_ids)),
                  Printed ''press Enter to quit'']))"

section \<open>Concrete inputs\<close>

text \<open>
  A photos directory that holds \<open>a.jpg\<close>, \<open>b.jpg\<close> and \<open>c.jpg\<close>: what \<open>Path.glob\<close> yields
  there for the two patterns that the examples use, \<open>*.jpg\<close> and \<open>*.*\<close>, and the
  \<open>ValueError\<close> it raises for the empty pattern; no example uses another pattern. An empty
  photos directory yields nothing for every pattern that is not empty.
\<close>

definition demo_photos :: "string list" where
  "demo_photos = [''a.jpg'', ''b.jpg'', ''c.jpg'']"

definition demo_glob :: "string \<Rightarrow> error + string list" where
  "demo_glob e =
     (if e = [] then Inl ValueError
      else if e = ''*.jpg'' \<or> e = ''*.*'' then Inr demo_photos
      else Inr [])"

definition empty_glob :: "string \<Rightarrow> error + string list" where
  "empty_glob e = (if e = [] then Inl ValueError else Inr [])"

text \<open>
  An environment in which nothing fails. Its arrays hold integers, on which the float32
  product is the exact inner product and \<open>sorted\<close> with \<open>reverse=True\<close> is the stable
  descending sort (reverse, sort stably ascending, reverse back).
\<close>

definition io_ok :: "int io" where
  "io_ok = \<lparr>compute_image_features = (\<lambda>fs. Inr (NDArray 2 (map (\<lambda>f. [1, 0]) fs))),
            compute_text_feature = (\<lambda>t. Inr [1, 2]),
            photos_glob = demo_glob,
            resolve = (\<lambda>p. ''/photos/'' @ p),
            np_save = (\<lambda>p. Done),
            to_csv = (\<lambda>p. Done),
            matmul_entry = (\<lambda>q m r. sum_list (map2 (*) q (rows m ! r))),
            sorted_reverse = (\<lambda>xs. rev (sort_key fst (rev xs)))\<rparr>"

text \<open>
  Environments whose text encoder fails on the query \<open>x\<close>, whose image encoder fails,
  in which saving an array fails and leaves a file of one row, in which writing the
  identifier table of batch 0 fails and leaves nothing at its path, and whose photos
  directory is empty.
\<close>

definition io_text_fails :: "int io" where
  "io_text_fails =
     io_ok\<lparr>compute_text_feature := (\<lambda>t. if t = ''x'' then Inl EncoderError else Inr [1, 2])\<rparr>"

definition io_image_fails :: "int io" where
  "io_image_fails = io_ok\<lparr>compute_image_features := (\<lambda>fs. Inl EncoderError)\<rparr>"

definition io_save_fails :: "int io" where
  "io_save_fails = io_ok\<lparr>np_save := (\<lambda>p. Raises (Some (Npy (NDArray 2 [[1, 0]]))))\<rparr>"

definition io_csv_fails :: "int io" where
  "io_csv_fails =
     io_ok\<lparr>to_csv := (\<lambda>p. if p = ''0000000000.csv'' then Raises None else Done)\<rparr>"

definition io_no_photos :: "int io" where
  "io_no_photos = io_ok\<lparr>photos_glob := empty_glob\<rparr>"

text \<open>A consolidated index of four photos, and configurations.\<close>

definition demo_features :: "int ndarray" where
  "demo_features = NDArray 2 [[1, 0], [0, 1], [2, 0], [0, 1]]"

definition demo_ids :: "string list" where
  "demo_ids = [''a.jpg'', ''b.jpg'', ''c.jpg'', ''d.jpg'']"

definition demo_index :: "int dir" where
  "demo_index = [(''features.npy'', Npy demo_features), (''photo_ids.csv'', Csv demo_ids)]"

definition demo_config :: config where
  "demo_config = \<lparr>batch_size = 2, ext_list = [''*.jpg''], display_num = 2\<rparr>"

text \<open>
  Directories: the per-batch artifacts that a run over \<open>demo_photos\<close> leaves, the same
  with the consolidated index of that run, a lone feature artifact of batch 0, and a
  directory in which batch 0 has a feature artifact but no identifier artifact.
\<close>

definition demo_batches :: "int dir" where
  "demo_batches =
     [(''0000000000.npy'', Npy (NDArray 2 [[1, 0], [1, 0]])),
      (''0000000000.csv'', Csv [''/photos/a.jpg'', ''/photos/b.jpg'']),
      (''0000000001.npy'', Npy (NDArray 2 [[1, 0]])),
      (''0000000001.csv'', Csv [''/photos/c.jpg''])]"

definition first_run :: "int dir" where
  "first_run =
     demo_batches @
     [(''features.npy'', Npy (NDArray 2 [[1, 0], [1, 0], [1, 0]])),
      (''photo_ids.csv'', Csv [''/photos/a.jpg'', ''/photos/b.jpg'', ''/photos/c.jpg''])]"

definition stale_batch :: "int dir" where
  "stale_batch = [(''0000000000.npy'', Npy (NDArray 2 [[5, 5]]))]"

definition orphan_dir :: "int dir" where
  "orphan_dir =
     [(''0000000000.npy'', Npy (NDArray 2 [[1, 0], [1, 0]])),
      (''0000000001.npy'', Npy (NDArray 2 [[1, 0]])),
      (''0000000001.csv'', Csv [''/photos/c.jpg''])]"

text \<open>
  A device of the proofs, not part of the scripts: the number that a string of decimal
  digits denotes (\<open>position c ds\<close> is the number of items of \<open>ds\<close> before the first \<open>c\<close>).
  It reads a batch name back, which shows that distinct batch indices have distinct
  artifact names.
\<close>

definition position :: "'b \<Rightarrow> 'b list \<Rightarrow> nat" where
  "position x xs = length (takeWhile (\<lambda>y. y \<noteq> x) xs)"

definition decimal_value :: "string \<Rightarrow> nat" where
  "decimal_value s = foldl (\<lambda>a c. 10 * a + position c ''0123456789'') 0 s"

section \<open>The enumerated file list\<close>

lemma count_list_concat_map:
  "count_list (concat (map g es)) f = sum_list (map (\<lambda>e. count_list (g e) f) es)"
  by (induction es) simp_all

text \<open>
  Claim C9, as the code has it: nothing is removed from the enumeration. When every glob
  succeeds, \<open>g e\<close> being what the glob of pattern \<open>e\<close> yields, the enumerated list is the
  concatenation of these lists in the order of \<open>ext_list\<close>; so a path occurs in it as often
  as it occurs in the lists of all entries of \<open>ext_list\<close> together, and a file that two
  entries yield is there twice.
\<close>

theorem photos_files_concat:
  assumes "\<forall>e\<in>set exts. photos_glob io e = Inr (g e)"
  shows "photos_files io exts = Inr (concat (map g exts)) \<and>
         (\<forall>pfiles. photos_files io exts = Inr pfiles \<longrightarrow>
            count_list pfiles f = sum_list (map (\<lambda>e. count_list (g e) f) exts))"
proof -
  have "photos_files io exts = Inr (concat (map g exts))"
    using assms by (induction exts) simp_all
  then show ?thesis by (simp add: count_list_concat_map)
qed

theorem photos_files_concat_witness:
  "photos_glob io_ok ''*.jpg'' = Inr demo_photos \<and>
   photos_glob io_ok ''*.*'' = Inr demo_photos \<and>
   photos_files io_ok [''*.jpg'', ''*.*''] =
     Inr [''a.jpg'', ''b.jpg'', ''c.jpg'', ''a.jpg'', ''b.jpg'', ''c.jpg''] \<and>
   count_list [''a.jpg'', ''b.jpg'', ''c.jpg'', ''a.jpg'', ''b.jpg'', ''c.jpg''] ''a.jpg''
     = sum_list (map (\<lambda>e. count_list demo_photos ''a.jpg'') [''*.jpg'', ''*.*''])"
proof -
  have h: "\<forall>e\<in>set [''*.jpg'', ''*.*'']. photos_glob io_ok e = Inr demo_photos"
    by (simp add: io_ok_def demo_glob_def)
  show ?thesis
    using photos_files_concat [OF h, of "''a.jpg''"] h by (simp add: demo_photos_def)
qed

text \<open>
  Claim C9 as stated fails: with the patterns \<open>*.jpg\<close> and \<open>*.*\<close>, which both match
  every file of the photos directory, each file is enumerated twice.
\<close>

theorem photos_files_duplicate:
  "photos_files io_ok [''*.jpg'', ''*.*''] =
     Inr [''a.jpg'', ''b.jpg'', ''c.jpg'', ''a.jpg'', ''b.jpg'', ''c.jpg''] \<and>
   \<not> distinct [''a.jpg'', ''b.jpg'', ''c.jpg'', ''a.jpg'', ''b.jpg'', ''c.jpg'']"
  by (simp add: io_ok_def demo_glob_def demo_photos_def)

section \<open>The query loop\<close>










text \<open>
  Claim C7, as the code has it: the query loop has no exception handler, so a failure of
  the text encoder on a query ends the loop with that error right after the prompt;
  nothing is printed for the query and the remaining input lines are never read.
\<close>

theorem encoder_failure_ends_session:
  assumes "compute_text_feature io search_query = Inl e" and "search_query \<noteq> []"
  shows "query_loop io photo_features photo_ids k (search_query # rest) out =
           (Some e, out @ [Prompt])"
  using assms by (simp add: answer_def)

theorem encoder_failure_ends_session_witness:
  "compute_text_feature io_text_fails ''x'' = Inl EncoderError \<and> ''x'' \<noteq> [] \<and>
   query_loop io_text_fails demo_features demo_ids 2 [''x'', ''y'', []] [] =
     (Some EncoderError, [Prompt])"
proof -
  have e: "compute_text_feature io_text_fails ''x'' = Inl EncoderError"
    by (simp add: io_text_fails_def)
  have n: "''x'' \<noteq> []" by simp
  show ?thesis
    using encoder_failure_ends_session [OF e n, of demo_features demo_ids 2 "[''y'', []]" "[]"] e
    by simp
qed

text \<open>
  Claim C7 as stated fails: the encoder fails on the first query \<open>x\<close>, and the session
  ends there with the encoder's error; the second query \<open>y\<close>, which the encoder would
  accept, is neither prompted for nor answered.
\<close>

theorem search_encoder_failure:
  "search \<lparr>batch_size = 2, ext_list = [''*.jpg''], display_num = 2\<rparr> io_text_fails demo_index
     [''x'', ''y'', []] =
   (Some EncoderError,
    [Printed ''Photos found: 4'', Printed ''press Enter to quit'', Prompt])"
  by (simp add: search_def demo_index_def demo_features_def demo_ids_def io_text_fails_def
      io_ok_def np_load_def read_csv_def answer_def decimal.simps digit_def)

section \<open>Batch artifact names\<close>

lemma digit_cases:
  "d < 10 \<Longrightarrow> d = 0 \<or> d = 1 \<or> d = 2 \<or> d = 3 \<or> d = 4 \<or> d = 5 \<or> d = 6 \<or> d = 7 \<or> d = 8 \<or> d = (9::nat)"
  by arith

lemma position_digit: "d < 10 \<Longrightarrow> position (digit d) ''0123456789'' = d"
  by (drule digit_cases) (auto simp: position_def digit_def)

lemma digit_in: "d < 10 \<Longrightarrow> digit d \<in> set ''0123456789''"
  by (drule digit_cases) (auto simp: digit_def)

lemma decimal_value_snoc:
  "decimal_value (s @ [c]) = 10 * decimal_value s + position c ''0123456789''"
  by (simp add: decimal_value_def)

lemma decimal_value_decimal: "decimal_value (decimal n) = n"
proof (induction n rule: decimal.induct)
  case (1 n)
  show ?case
  proof (cases "n < 10")
    case True
    then show ?thesis
      by (subst decimal.simps) (simp add: decimal_value_def position_digit)
  next
    case False
    then have "decimal_value (decimal (n div 10)) = n div 10" using 1 by simp
    then show ?thesis
      using False by (subst decimal.simps) (simp add: decimal_value_snoc position_digit)
  qed
qed

lemma decimal_value_zeros: "decimal_value (replicate k (CHR ''0'') @ s) = decimal_value s"
proof -
  have z: "position (CHR ''0'') ''0123456789'' = 0" by (simp add: position_def)
  have "foldl (\<lambda>a c. 10 * a + position c ''0123456789'') 0 (replicate k (CHR ''0'')) = 0"
    by (induction k) (simp_all add: z)
  then show ?thesis by (simp add: decimal_value_def)
qed

lemma decimal_value_batch_stem: "decimal_value (batch_stem i) = i"
  by (simp add: batch_stem_def decimal_value_zeros decimal_value_decimal)

lemma batch_stem_inj: "batch_stem i = batch_stem j \<Longrightarrow> i = j"
  by (metis decimal_value_batch_stem)

lemma decimal_digits: "set (decimal n) \<subseteq> set ''0123456789''"
proof (induction n rule: decimal.induct)
  case (1 n)
  show ?case
  proof (cases "n < 10")
    case True
    then show ?thesis using digit_in [of n] by (subst decimal.simps) simp
  next
    case False
    then have "set (decimal (n div 10)) \<subseteq> set ''0123456789''" using 1 by simp
    moreover have "digit (n mod 10) \<in> set ''0123456789''" by (rule digit_in) simp
    ultimately show ?thesis using False by (subst decimal.simps) simp
  qed
qed

lemma batch_stem_digits: "set (batch_stem i) \<subseteq> set ''0123456789''"
  using decimal_digits [of i] by (auto simp: batch_stem_def)

lemma batch_paths_distinct:
  "batch_features_path i \<noteq> batch_ids_path j"
  "batch_features_path i \<noteq> ''features.npy''"
  "batch_features_path i \<noteq> ''photo_ids.csv''"
  "batch_ids_path i \<noteq> ''features.npy''"
  "batch_ids_path i \<noteq> ''photo_ids.csv''"
proof -
  have l: "last (batch_features_path k) = CHR ''y''" "last (batch_ids_path k) = CHR ''v''" for k
    by (simp_all add: batch_features_path_def batch_ids_path_def)
  show "batch_features_path i \<noteq> batch_ids_path j"
    using l [of i] l [of j] by auto
  show "batch_features_path i \<noteq> ''photo_ids.csv''"
    using l [of i] by auto
  show "batch_ids_path i \<noteq> ''features.npy''"
    using l [of i] by auto
  show "batch_features_path i \<noteq> ''features.npy''"
  proof
    assume "batch_features_path i = ''features.npy''"
    then have "batch_stem i @ ''.npy'' = ''features'' @ ''.npy''"
      by (simp add: batch_features_path_def)
    then have "batch_stem i = ''features''" by (simp only: same_append_eq append_same_eq)
    then show False using batch_stem_digits [of i] by simp
  qed
  show "batch_ids_path i \<noteq> ''photo_ids.csv''"
  proof
    assume "batch_ids_path i = ''photo_ids.csv''"
    then have "batch_stem i @ ''.csv'' = ''photo_ids'' @ ''.csv''"
      by (simp add: batch_ids_path_def)
    then have "batch_stem i = ''photo_ids''" by (simp only: same_append_eq append_same_eq)
    then show False using batch_stem_digits [of i] by simp
  qed
qed

lemma batch_paths_inj:
  "batch_features_path i = batch_features_path j \<longleftrightarrow> i = j"
  "batch_ids_path i = batch_ids_path j \<longleftrightarrow> i = j"
  by (auto simp: batch_features_path_def batch_ids_path_def dest: batch_stem_inj)

lemma batch_stem_0: "batch_stem 0 = ''0000000000''"
  by code_simp

lemma batch_stem_1: "batch_stem (Suc 0) = ''0000000001''"
  by code_simp

lemmas batch_path_simps =
  batch_features_path_def batch_ids_path_def batch_stem_0 batch_stem_1

lemmas batch_loop_simps =
  batch_loop_def upt_rec batch_step_def batch_body_def batch_path_simps path_exists_def
  write_file_def Let_def

lemmas merge_simps =
  merge_def glob_suffix_def endswith_def np_load_def read_csv_def np_concatenate_def
  pd_concat_def write_file_def

lemma photos_files_demo: "photos_files io_ok [''*.jpg''] = Inr demo_photos"
  by (simp add: io_ok_def demo_glob_def)

lemma photos_files_csv_fails: "photos_files io_csv_fails [''*.jpg''] = Inr demo_photos"
  by (simp add: io_csv_fails_def io_ok_def demo_glob_def)

lemma photos_files_none: "photos_files io_no_photos [''*.jpg''] = Inr []"
  by (simp add: io_no_photos_def empty_glob_def)

lemma length_demo_photos: "length demo_photos = 3"
  by (simp add: demo_photos_def)

section \<open>The batch loop\<close>

lemma write_file_other:
  "p \<noteq> k \<Longrightarrow> map_of (snd (write_file oc k v d)) p = map_of d p"
  by (simp add: write_file_def update_conv' split: outcome.splits option.splits)

lemma batch_body_other:
  assumes "p \<noteq> batch_features_path j" "p \<noteq> batch_ids_path j"
  shows "map_of (files (snd (batch_body io bs pfiles j s))) p = map_of (files s) p"
  using assms
  by (simp add: batch_body_def Let_def write_file_def update_conv'
      split: sum.splits outcome.splits option.splits)

lemma batch_body_trace:
  "\<exists>bf. trace (snd (batch_body io bs pfiles j s)) = trace s @ [EncodeImages j bf]"
  by (simp add: batch_body_def Let_def write_file_def
      split: sum.splits outcome.splits option.splits)

lemma batch_step_other:
  assumes "p \<noteq> batch_features_path j" "p \<noteq> batch_ids_path j"
  shows "map_of (files (batch_step io bs pfiles n j s)) p = map_of (files s) p"
proof -
  let ?s0 = "s\<lparr>trace := trace s @ [Processing (j + 1) n]\<rparr>"
  have "map_of (files (snd (batch_body io bs pfiles j ?s0))) p = map_of (files ?s0) p"
    using assms by (rule batch_body_other)
  then show ?thesis
    by (cases "batch_body io bs pfiles j ?s0")
       (auto simp: batch_step_def Let_def split: option.splits)
qed

lemma batch_step_skip:
  assumes "path_exists (batch_features_path i) (files s)"
  shows "batch_step io bs pfiles n i s = s\<lparr>trace := trace s @ [Processing (i + 1) n]\<rparr>"
  using assms by (simp add: batch_step_def)

lemma batch_step_trace:
  "set (trace (batch_step io bs pfiles n j s))
     \<subseteq> set (trace s) \<union> {Processing (j + 1) n, Problem j} \<union> range (EncodeImages j)"
proof -
  let ?s0 = "s\<lparr>trace := trace s @ [Processing (j + 1) n]\<rparr>"
  obtain bf where "trace (snd (batch_body io bs pfiles j ?s0)) = trace ?s0 @ [EncodeImages j bf]"
    using batch_body_trace by blast
  then show ?thesis
    by (cases "batch_body io bs pfiles j ?s0")
       (auto simp: batch_step_def Let_def split: option.splits)
qed

lemma batch_step_kept:
  assumes "map_of (files s) (batch_features_path i) = Some f"
    and "\<forall>bf. EncodeImages i bf \<notin> set (trace s)"
  shows "map_of (files (batch_step io bs pfiles n j s)) (batch_features_path i) = Some f
       \<and> map_of (files (batch_step io bs pfiles n j s)) (batch_ids_path i)
           = map_of (files s) (batch_ids_path i)
       \<and> (\<forall>bf. EncodeImages i bf \<notin> set (trace (batch_step io bs pfiles n j s)))"
proof (cases "j = i")
  case True
  have "path_exists (batch_features_path i) (files s)"
    using assms(1) by (simp add: path_exists_def)
  then show ?thesis
    using assms True by (simp add: batch_step_skip)
next
  case False
  have "map_of (files (batch_step io bs pfiles n j s)) (batch_features_path i)
          = map_of (files s) (batch_features_path i)"
    using False by (intro batch_step_other) (simp_all add: batch_paths_inj batch_paths_distinct)
  moreover have "map_of (files (batch_step io bs pfiles n j s)) (batch_ids_path i)
          = map_of (files s) (batch_ids_path i)"
    using False batch_paths_distinct(1) [of j i]
    by (intro batch_step_other) (simp_all add: batch_paths_inj)
  moreover have "EncodeImages i bf \<notin> set (trace (batch_step io bs pfiles n j s))" for bf
    using batch_step_trace [of io bs pfiles n j s] assms(2) False by auto
  ultimately show ?thesis using assms(1) by simp
qed

lemma fold_batch_step_kept:
  assumes "map_of (files s) (batch_features_path i) = Some f"
    and "\<forall>bf. EncodeImages i bf \<notin> set (trace s)"
  shows "map_of (files (fold (batch_step io bs pfiles n) js s)) (batch_features_path i) = Some f
       \<and> map_of (files (fold (batch_step io bs pfiles n) js s)) (batch_ids_path i)
           = map_of (files s) (batch_ids_path i)
       \<and> (\<forall>bf. EncodeImages i bf \<notin> set (trace (fold (batch_step io bs pfiles n) js s)))"
  using assms
proof (induction js arbitrary: s)
  case Nil
  then show ?case by simp
next
  case (Cons j js)
  let ?s = "batch_step io bs pfiles n j s"
  have step: "map_of (files ?s) (batch_features_path i) = Some f
       \<and> map_of (files ?s) (batch_ids_path i) = map_of (files s) (batch_ids_path i)
       \<and> (\<forall>bf. EncodeImages i bf \<notin> set (trace ?s))"
    using Cons.prems by (rule batch_step_kept)
  then show ?case using Cons.IH [of ?s] by simp
qed

lemma merge_other:
  assumes "p \<noteq> ''features.npy''" "p \<noteq> ''photo_ids.csv''"
  shows "map_of (snd (merge io d)) p = map_of d p"
  using assms
  by (simp add: merge_def write_file_def update_conv'
      split: sum.splits outcome.splits option.splits prod.splits)

lemma batch_loop_stale:
  "batch_loop io_ok 2 demo_photos 2 \<lparr>files = stale_batch, trace = [PhotosFound 3]\<rparr> =
     \<lparr>files =
        [(''0000000000.npy'', Npy (NDArray 2 [[5, 5]])),
         (''0000000001.npy'', Npy (NDArray 2 [[1, 0]])),
         (''0000000001.csv'', Csv [''/photos/c.jpg''])],
      trace = [PhotosFound 3, Processing 1 2, Processing 2 2, EncodeImages 1 [''c.jpg'']]\<rparr>"
  by (simp add: batch_loop_simps io_ok_def stale_batch_def demo_photos_def)

lemma merge_stale:
  "merge io_ok
     [(''0000000000.npy'', Npy (NDArray 2 [[5, 5]])),
      (''0000000001.npy'', Npy (NDArray 2 [[1, 0]])),
      (''0000000001.csv'', Csv [''/photos/c.jpg''])] =
   (None,
    [(''0000000000.npy'', Npy (NDArray 2 [[5, 5]])),
     (''0000000001.npy'', Npy (NDArray 2 [[1, 0]])),
     (''0000000001.csv'', Csv [''/photos/c.jpg'']),
     (''features.npy'', Npy (NDArray 2 [[5, 5], [1, 0]])),
     (''photo_ids.csv'', Csv [''/photos/c.jpg''])])"
  by (simp add: merge_simps io_ok_def)

text \<open>
  Claim C6: when the feature artifact of batch \<open>i\<close> exists before a run of the pipeline,
  the whole run (batch loop and merge, whatever fails in it) leaves that artifact with the
  same content, leaves the identifier artifact of batch \<open>i\<close> as it was (present with the
  same content, or absent), and never calls the image encoder for batch \<open>i\<close>.
\<close>

theorem process_skips_existing:
  assumes "map_of d (batch_features_path i) = Some f"
    and "process cfg io d = (r, s')"
  shows "map_of (files s') (batch_features_path i) = Some f
       \<and> map_of (files s') (batch_ids_path i) = map_of d (batch_ids_path i)
       \<and> (\<forall>bf. EncodeImages i bf \<notin> set (trace s'))"
proof (cases "photos_files io (ext_list cfg)")
  case (Inl e)
  then have "s' = \<lparr>files = d, trace = []\<rparr>" using assms(2) by (simp add: process_def)
  then show ?thesis using assms(1) by simp
next
  case pf: (Inr pfiles)
  let ?s0 = "\<lparr>files = d, trace = [PhotosFound (length pfiles)]\<rparr>"
  show ?thesis
  proof (cases "batches (length pfiles) (batch_size cfg)")
    case (Inl e)
    then have "s' = ?s0" using assms(2) pf by (simp add: process_def Let_def)
    then show ?thesis using assms(1) by simp
  next
    case (Inr n)
    let ?s1 = "batch_loop io (batch_size cfg) pfiles n ?s0"
    have k1: "map_of (files ?s1) (batch_features_path i) = Some f
       \<and> map_of (files ?s1) (batch_ids_path i) = map_of (files ?s0) (batch_ids_path i)
       \<and> (\<forall>bf. EncodeImages i bf \<notin> set (trace ?s1))"
      unfolding batch_loop_def by (rule fold_batch_step_kept) (simp_all add: assms(1))
    have s': "s' = ?s1\<lparr>files := snd (merge io (files ?s1))\<rparr>"
      using assms(2) pf Inr by (simp add: process_def Let_def split: prod.splits)
    have "map_of (snd (merge io (files ?s1))) (batch_features_path i)
            = map_of (files ?s1) (batch_features_path i)"
      by (rule merge_other) (rule batch_paths_distinct)+
    moreover have "map_of (snd (merge io (files ?s1))) (batch_ids_path i)
            = map_of (files ?s1) (batch_ids_path i)"
      by (rule merge_other) (rule batch_paths_distinct)+
    ultimately show ?thesis using k1 by (simp add: s')
  qed
qed

theorem process_skips_existing_witness:
  "map_of stale_batch (batch_features_path 0) = Some (Npy (NDArray 2 [[5, 5]])) \<and>
   process demo_config io_ok stale_batch =
     (None,
      \<lparr>files =
         [(''0000000000.npy'', Npy (NDArray 2 [[5, 5]])),
          (''0000000001.npy'', Npy (NDArray 2 [[1, 0]])),
          (''0000000001.csv'', Csv [''/photos/c.jpg'']),
          (''features.npy'', Npy (NDArray 2 [[5, 5], [1, 0]])),
          (''photo_ids.csv'', Csv [''/photos/c.jpg''])],
       trace = [PhotosFound 3, Processing 1 2, Processing 2 2, EncodeImages 1 [''c.jpg'']]\<rparr>) \<and>
   map_of stale_batch (batch_ids_path 0) = None"
proof -
  have f: "map_of stale_batch (batch_features_path 0) = Some (Npy (NDArray 2 [[5, 5]]))"
    by (simp add: stale_batch_def batch_path_simps)
  have p: "process demo_config io_ok stale_batch =
     (None,
      \<lparr>files =
         [(''0000000000.npy'', Npy (NDArray 2 [[5, 5]])),
          (''0000000001.npy'', Npy (NDArray 2 [[1, 0]])),
          (''0000000001.csv'', Csv [''/photos/c.jpg'']),
          (''features.npy'', Npy (NDArray 2 [[5, 5], [1, 0]])),
          (''photo_ids.csv'', Csv [''/photos/c.jpg''])],
       trace = [PhotosFound 3, Processing 1 2, Processing 2 2, EncodeImages 1 [''c.jpg'']]\<rparr>)"
    by (simp add: process_def demo_config_def photos_files_demo length_demo_photos batches_def
        batch_loop_stale merge_stale del: photos_files.simps)
  show ?thesis
    using process_skips_existing [OF f p] f p by (simp add: stale_batch_def batch_path_simps)
qed

text \<open>
  Claim C3, as the code has it: the \<open>except\<close> clause only prints, and nothing is ever
  removed. Take a batch \<open>i\<close> whose feature artifact does not exist before the batch step.
  If \<open>compute_image_features\<close> raises, before anything is written, the batch is reported
  and the directory is unchanged. If \<open>np.save\<close> raises, the batch is reported, the feature
  path holds what the failed write left there (nothing, or a partial file) and the
  identifier path is as it was. If the feature artifact has been saved and the write of
  the identifier table raises, the batch is reported, the feature artifact stays on disk,
  and the identifier path holds what the failed write left there: what it held before the
  batch step (nothing, if there was no such file) when the write left the path alone, the
  partial file otherwise.
\<close>

theorem batch_step_failure:
  assumes "\<not> path_exists (batch_features_path i) (files s)"
  shows "(compute_image_features io (take bs (drop (i * bs) pfiles)) = Inl e \<longrightarrow>
            files (batch_step io bs pfiles n i s) = files s \<and>
            Problem i \<in> set (trace (batch_step io bs pfiles n i s)))
       \<and> (compute_image_features io (take bs (drop (i * bs) pfiles)) = Inr a \<and>
          np_save io (batch_features_path i) = Raises r1 \<longrightarrow>
            map_of (files (batch_step io bs pfiles n i s)) (batch_features_path i) = r1 \<and>
            map_of (files (batch_step io bs pfiles n i s)) (batch_ids_path i)
              = map_of (files s) (batch_ids_path i) \<and>
            Problem i \<in> set (trace (batch_step io bs pfiles n i s)))
       \<and> (compute_image_features io (take bs (drop (i * bs) pfiles)) = Inr a \<and>
          np_save io (batch_features_path i) = Done \<and>
          to_csv io (batch_ids_path i) = Raises r \<longrightarrow>
            map_of (files (batch_step io bs pfiles n i s)) (batch_features_path i)
              = Some (Npy a) \<and>
            map_of (files (batch_step io bs pfiles n i s)) (batch_ids_path i)
              = (case r of None \<Rightarrow> map_of (files s) (batch_ids_path i) | Some g \<Rightarrow> Some g) \<and>
            Problem i \<in> set (trace (batch_step io bs pfiles n i s)))"
proof (intro conjI impI)
  assume "compute_image_features io (take bs (drop (i * bs) pfiles)) = Inl e"
  then show "files (batch_step io bs pfiles n i s) = files s"
    and "Problem i \<in> set (trace (batch_step io bs pfiles n i s))"
    using assms by (simp_all add: batch_step_def batch_body_def Let_def)
next
  assume h: "compute_image_features io (take bs (drop (i * bs) pfiles)) = Inr a \<and>
          np_save io (batch_features_path i) = Raises r1"
  have ne: "batch_features_path i \<noteq> batch_ids_path i" "batch_ids_path i \<noteq> batch_features_path i"
    using batch_paths_distinct(1) [of i i] by simp_all
  have absent: "map_of (files s) (batch_features_path i) = None"
    using assms by (simp add: path_exists_def)
  show "map_of (files (batch_step io bs pfiles n i s)) (batch_features_path i) = r1"
    using assms h absent
    by (cases r1) (simp_all add: batch_step_def batch_body_def Let_def write_file_def update_conv')
  show "map_of (files (batch_step io bs pfiles n i s)) (batch_ids_path i)
          = map_of (files s) (batch_ids_path i)"
    using assms h ne
    by (cases r1) (simp_all add: batch_step_def batch_body_def Let_def write_file_def update_conv')
  show "Problem i \<in> set (trace (batch_step io bs pfiles n i s))"
    using assms h
    by (cases r1) (simp_all add: batch_step_def batch_body_def Let_def write_file_def)
next
  assume h: "compute_image_features io (take bs (drop (i * bs) pfiles)) = Inr a \<and>
          np_save io (batch_features_path i) = Done \<and>
          to_csv io (batch_ids_path i) = Raises r"
  have ne: "batch_features_path i \<noteq> batch_ids_path i" "batch_ids_path i \<noteq> batch_features_path i"
    using batch_paths_distinct(1) [of i i] by simp_all
  show "map_of (files (batch_step io bs pfiles n i s)) (batch_features_path i) = Some (Npy a)"
    using assms h ne
    by (cases r) (simp_all add: batch_step_def batch_body_def Let_def write_file_def update_conv')
  show "map_of (files (batch_step io bs pfiles n i s)) (batch_ids_path i)
          = (case r of None \<Rightarrow> map_of (files s) (batch_ids_path i) | Some g \<Rightarrow> Some g)"
    using assms h ne
    by (cases r) (simp_all add: batch_step_def batch_body_def Let_def write_file_def update_conv')
  show "Problem i \<in> set (trace (batch_step io bs pfiles n i s))"
    using assms h
    by (cases r) (simp_all add: batch_step_def batch_body_def Let_def write_file_def)
qed

theorem batch_step_failure_witness:
  "\<not> path_exists (batch_features_path 0) (files \<lparr>files = ([] :: int dir), trace = []\<rparr>) \<and>
   compute_image_features io_image_fails (take 2 (drop (0 * 2) demo_photos)) = Inl EncoderError \<and>
   files (batch_step io_image_fails 2 demo_photos 2 0 \<lparr>files = [], trace = []\<rparr>) = [] \<and>
   compute_image_features io_save_fails (take 2 (drop (0 * 2) demo_photos))
     = Inr (NDArray 2 [[1, 0], [1, 0]]) \<and>
   np_save io_save_fails (batch_features_path 0) = Raises (Some (Npy (NDArray 2 [[1, 0]]))) \<and>
   map_of (files (batch_step io_save_fails 2 demo_photos 2 0 \<lparr>files = [], trace = []\<rparr>))
     (batch_features_path 0) = Some (Npy (NDArray 2 [[1, 0]])) \<and>
   map_of (files (batch_step io_save_fails 2 demo_photos 2 0 \<lparr>files = [], trace = []\<rparr>))
     (batch_ids_path 0) = None \<and>
   compute_image_features io_csv_fails (take 2 (drop (0 * 2) demo_photos))
     = Inr (NDArray 2 [[1, 0], [1, 0]]) \<and>
   np_save io_csv_fails (batch_features_path 0) = Done \<and>
   to_csv io_csv_fails (batch_ids_path 0) = Raises None \<and>
   map_of (files (batch_step io_csv_fails 2 demo_photos 2 0 \<lparr>files = [], trace = []\<rparr>))
     (batch_features_path 0) = Some (Npy (NDArray 2 [[1, 0], [1, 0]])) \<and>
   map_of (files (batch_step io_csv_fails 2 demo_photos 2 0 \<lparr>files = [], trace = []\<rparr>))
     (batch_ids_path 0) = None"
proof -
  let ?s = "\<lparr>files = ([] :: int dir), trace = []\<rparr>"
  let ?a = "NDArray 2 [[1, 0], [1, 0::int]]"
  have n: "\<not> path_exists (batch_features_path 0) (files ?s)"
    by (simp add: path_exists_def)
  have a: "compute_image_features io_image_fails (take 2 (drop (0 * 2) demo_photos))
             = Inl EncoderError"
    by (simp add: io_image_fails_def)
  have b: "compute_image_features io_csv_fails (take 2 (drop (0 * 2) demo_photos)) = Inr ?a"
    by (simp add: io_csv_fails_def io_ok_def demo_photos_def)
  have c: "np_save io_csv_fails (batch_features_path 0) = Done"
    by (simp add: io_csv_fails_def io_ok_def)
  have d: "to_csv io_csv_fails (batch_ids_path 0) = Raises None"
    by (simp add: io_csv_fails_def batch_path_simps)
  have f: "compute_image_features io_save_fails (take 2 (drop (0 * 2) demo_photos)) = Inr ?a"
    by (simp add: io_save_fails_def io_ok_def demo_photos_def)
  have g: "np_save io_save_fails (batch_features_path 0)
             = Raises (Some (Npy (NDArray 2 [[1, 0]])))"
    by (simp add: io_save_fails_def)
  show ?thesis
    using batch_step_failure [OF n, of io_image_fails 2 demo_photos EncoderError 2]
      batch_step_failure [OF n, of io_save_fails 2 demo_photos _ 2 ?a
        "Some (Npy (NDArray 2 [[1, 0]]))"]
      batch_step_failure [OF n, of io_csv_fails 2 demo_photos _ 2 ?a _ None]
      n a b c d f g
    by simp
qed

text \<open>
  Claim C3 as stated fails: batch 0 fails while its identifier table is written, the
  failure is reported, and after the batch step the feature artifact of batch 0 is on
  disk without an identifier artifact.
\<close>

theorem batch_step_leaves_feature_artifact:
  "batch_step io_csv_fails 2 demo_photos 2 0 \<lparr>files = [], trace = []\<rparr> =
     \<lparr>files = [(''0000000000.npy'', Npy (NDArray 2 [[1, 0], [1, 0]]))],
      trace = [Processing 1 2, EncodeImages 0 [''a.jpg'', ''b.jpg''], Problem 0]\<rparr>"
  by (simp add: batch_step_def batch_body_def batch_path_simps path_exists_def write_file_def
      Let_def io_csv_fails_def io_ok_def demo_photos_def)

section \<open>The merge\<close>

lemma glob_suffix_update:
  "\<not> endswith k suffix \<Longrightarrow> glob_suffix (AList.update k v d) suffix = glob_suffix d suffix"
  by (simp add: glob_suffix_def update_keys)

lemma load_all_cong:
  "(\<And>p. p \<in> set ps \<Longrightarrow> f p = g p) \<Longrightarrow> load_all f ps = load_all g ps"
  by (induction ps) (simp_all cong: sum.case_cong)

lemma read_csv_update:
  "p \<noteq> k \<Longrightarrow> read_csv (AList.update k v d) p = read_csv d p"
  by (simp add: read_csv_def update_conv')

text \<open>
  Claim C2, as the code has it: the merge has no check that pairs feature artifacts with
  identifier artifacts or compares their lengths, and no error for a corrupt batch.
  Whenever every \<open>*.npy\<close> file loads, the arrays can be concatenated, every \<open>*.csv\<close> file
  loads, at least one exists and both writes complete, the merge succeeds: it writes to
  \<open>features.npy\<close> the rows of all \<open>*.npy\<close> files in sorted name order and, independently,
  to \<open>photo_ids.csv\<close> the identifiers of all \<open>*.csv\<close> files in sorted name order, whichever
  batches they belong to.
\<close>

theorem merge_unchecked:
  assumes "load_all (np_load d) (sort (glob_suffix d ''.npy'')) = Inr arrs"
    and "np_concatenate arrs = Inr features"
    and "load_all (read_csv d) (sort (glob_suffix d ''.csv'')) = Inr frames"
    and "frames \<noteq> []"
    and "np_save io ''features.npy'' = Done" and "to_csv io ''photo_ids.csv'' = Done"
  shows "merge io d =
           (None, AList.update ''photo_ids.csv'' (Csv (concat frames))
                    (AList.update ''features.npy'' (Npy features) d))
         \<and> rows features = concat (map rows arrs)"
proof -
  let ?d1 = "AList.update ''features.npy'' (Npy features) d"
  have g: "glob_suffix ?d1 ''.csv'' = glob_suffix d ''.csv''"
    by (rule glob_suffix_update) (simp add: endswith_def)
  have "load_all (read_csv ?d1) (sort (glob_suffix d ''.csv''))
        = load_all (read_csv d) (sort (glob_suffix d ''.csv''))"
  proof (rule load_all_cong)
    fix p assume "p \<in> set (sort (glob_suffix d ''.csv''))"
    then have "endswith p ''.csv''" by (simp add: glob_suffix_def)
    then have "p \<noteq> ''features.npy''" by (auto simp: endswith_def)
    then show "read_csv ?d1 p = read_csv d p" by (rule read_csv_update)
  qed
  then have l: "load_all (read_csv ?d1) (sort (glob_suffix ?d1 ''.csv'')) = Inr frames"
    using assms(3) g by simp
  have c: "pd_concat frames = Inr (concat frames)"
    using assms(4) by (cases frames) (simp_all add: pd_concat_def)
  have "merge io d = (None, AList.update ''photo_ids.csv'' (Csv (concat frames)) ?d1)"
    using assms(1,2,5,6) l c by (simp add: merge_def write_file_def)
  moreover have "rows features = concat (map rows arrs)"
    using assms(2) by (auto simp: np_concatenate_def split: list.splits if_splits)
  ultimately show ?thesis by simp
qed

theorem merge_unchecked_witness:
  "load_all (np_load orphan_dir) (sort (glob_suffix orphan_dir ''.npy''))
     = Inr [NDArray 2 [[1, 0], [1, 0]], NDArray 2 [[1, 0]]] \<and>
   np_concatenate [NDArray 2 [[1, 0], [1, 0]], NDArray 2 [[1, 0::int]]]
     = Inr (NDArray 2 [[1, 0], [1, 0], [1, 0]]) \<and>
   load_all (read_csv orphan_dir) (sort (glob_suffix orphan_dir ''.csv''))
     = Inr [[''/photos/c.jpg'']] \<and>
   [[''/photos/c.jpg'']] \<noteq> [] \<and>
   np_save io_ok ''features.npy'' = Done \<and> to_csv io_ok ''photo_ids.csv'' = Done \<and>
   merge io_ok orphan_dir =
     (None, orphan_dir @
        [(''features.npy'', Npy (NDArray 2 [[1, 0], [1, 0], [1, 0]])),
         (''photo_ids.csv'', Csv [''/photos/c.jpg''])])"
proof -
  have a: "load_all (np_load orphan_dir) (sort (glob_suffix orphan_dir ''.npy''))
     = Inr [NDArray 2 [[1, 0], [1, 0]], NDArray 2 [[1, 0]]]"
    by (simp add: orphan_dir_def glob_suffix_def endswith_def np_load_def)
  have b: "np_concatenate [NDArray 2 [[1, 0], [1, 0]], NDArray 2 [[1, 0::int]]]
     = Inr (NDArray 2 [[1, 0], [1, 0], [1, 0]])"
    by (simp add: np_concatenate_def)
  have c: "load_all (read_csv orphan_dir) (sort (glob_suffix orphan_dir ''.csv''))
     = Inr [[''/photos/c.jpg'']]"
    by (simp add: orphan_dir_def glob_suffix_def endswith_def read_csv_def)
  have d: "[[''/photos/c.jpg'']] \<noteq> []" by simp
  have e: "np_save io_ok ''features.npy'' = Done" by (simp add: io_ok_def)
  have f: "to_csv io_ok ''photo_ids.csv'' = Done" by (simp add: io_ok_def)
  show ?thesis
    using merge_unchecked [OF a b c d e f] a b c e f by (simp add: orphan_dir_def)
qed

lemma batch_loop_csv_fails:
  "batch_loop io_csv_fails 2 demo_photos 2 \<lparr>files = [], trace = [PhotosFound 3]\<rparr> =
     \<lparr>files = orphan_dir,
      trace = [PhotosFound 3, Processing 1 2, EncodeImages 0 [''a.jpg'', ''b.jpg''], Problem 0,
               Processing 2 2, EncodeImages 1 [''c.jpg'']]\<rparr>"
  by (simp add: batch_loop_simps io_csv_fails_def io_ok_def orphan_dir_def demo_photos_def)

lemma merge_orphan:
  "merge io_csv_fails orphan_dir =
     (None, orphan_dir @
        [(''features.npy'', Npy (NDArray 2 [[1, 0], [1, 0], [1, 0]])),
         (''photo_ids.csv'', Csv [''/photos/c.jpg''])])"
  by (simp add: merge_simps io_csv_fails_def io_ok_def orphan_dir_def)

text \<open>
  Claim C2 as stated fails. In a run from an empty directory, batch 0 loses its identifier
  table to a write failure; the merge then raises nothing and writes a consolidated index
  of three rows and one identifier.
\<close>

theorem process_orphan_misaligned:
  "process demo_config io_csv_fails [] =
     (None,
      \<lparr>files = orphan_dir @
         [(''features.npy'', Npy (NDArray 2 [[1, 0], [1, 0], [1, 0]])),
          (''photo_ids.csv'', Csv [''/photos/c.jpg''])],
       trace = [PhotosFound 3, Processing 1 2, EncodeImages 0 [''a.jpg'', ''b.jpg''], Problem 0,
                Processing 2 2, EncodeImages 1 [''c.jpg'']]\<rparr>)"
  by (simp add: process_def demo_config_def photos_files_csv_fails length_demo_photos
      batches_def batch_loop_csv_fails merge_orphan del: photos_files.simps)

subsection \<open>Merging twice\<close>

lemma batch_loop_fresh:
  "batch_loop io_ok 2 demo_photos 2 \<lparr>files = [], trace = [PhotosFound 3]\<rparr> =
     \<lparr>files = demo_batches,
      trace = [PhotosFound 3, Processing 1 2, EncodeImages 0 [''a.jpg'', ''b.jpg''],
               Processing 2 2, EncodeImages 1 [''c.jpg'']]\<rparr>"
  by (simp add: batch_loop_simps io_ok_def demo_batches_def demo_photos_def)

lemma batch_loop_again:
  "batch_loop io_ok 2 demo_photos 2 \<lparr>files = first_run, trace = [PhotosFound 3]\<rparr> =
     \<lparr>files = first_run, trace = [PhotosFound 3, Processing 1 2, Processing 2 2]\<rparr>"
  by (simp add: batch_loop_simps io_ok_def first_run_def demo_batches_def demo_photos_def)

lemma merge_fresh: "merge io_ok demo_batches = (None, first_run)"
  by (simp add: merge_simps io_ok_def first_run_def demo_batches_def)

lemma merge_again:
  "merge io_ok first_run =
     (None, demo_batches @
        [(''features.npy'', Npy (NDArray 2 [[1, 0], [1, 0], [1, 0], [1, 0], [1, 0], [1, 0]])),
         (''photo_ids.csv'',
          Csv [''/photos/a.jpg'', ''/photos/b.jpg'', ''/photos/c.jpg'',
               ''/photos/a.jpg'', ''/photos/b.jpg'', ''/photos/c.jpg''])])"
  by (simp add: merge_simps io_ok_def first_run_def demo_batches_def)

text \<open>
  Claim C1 against the code: the globs \<open>*.npy\<close> and \<open>*.csv\<close> of the merge also match the
  consolidated artifacts \<open>features.npy\<close> and \<open>photo_ids.csv\<close> of an earlier run. A first
  run over three photos writes an index of three rows; a second run over the same photos
  skips both batches, leaves the per-batch artifacts as they are, and writes an index of
  six rows, every photo twice.
\<close>

theorem rerun_doubles_index:
  "process demo_config io_ok [] =
     (None,
      \<lparr>files = first_run,
       trace = [PhotosFound 3, Processing 1 2, EncodeImages 0 [''a.jpg'', ''b.jpg''],
                Processing 2 2, EncodeImages 1 [''c.jpg'']]\<rparr>) \<and>
   process demo_config io_ok first_run =
     (None,
      \<lparr>files = demo_batches @
         [(''features.npy'', Npy (NDArray 2 [[1, 0], [1, 0], [1, 0], [1, 0], [1, 0], [1, 0]])),
          (''photo_ids.csv'',
           Csv [''/photos/a.jpg'', ''/photos/b.jpg'', ''/photos/c.jpg'',
                ''/photos/a.jpg'', ''/photos/b.jpg'', ''/photos/c.jpg''])],
       trace = [PhotosFound 3, Processing 1 2, Processing 2 2]\<rparr>)"
  by (simp add: process_def demo_config_def photos_files_demo length_demo_photos batches_def
      batch_loop_fresh batch_loop_again merge_fresh merge_again del: photos_files.simps)

subsection \<open>Merging nothing\<close>

lemma merge_no_arrays:
  assumes "glob_suffix d ''.npy'' = []"
  shows "merge io d = (Some ValueError, d)"
  using assms by (simp add: merge_def np_concatenate_def)

lemma merge_index_only: "merge io_no_photos demo_index = (None, demo_index)"
  by (simp add: merge_simps io_no_photos_def io_ok_def demo_index_def demo_features_def
      demo_ids_def)

text \<open>
  Claim C10 against the code. With no \<open>*.npy\<close> file at all the merge does raise before it
  writes (\<open>merge_no_arrays\<close>). But a directory that holds only the consolidated index of
  an earlier run has no per-batch feature artifact either, and there a run that finds zero
  input files raises nothing: the merge loads \<open>features.npy\<close> as if it were a batch and
  writes the index again.
\<close>

theorem process_stale_index:
  "glob_suffix demo_index ''.npy'' = [''features.npy''] \<and>
   process demo_config io_no_photos demo_index =
     (None, \<lparr>files = demo_index, trace = [PhotosFound 0]\<rparr>)"
  by (simp add: process_def demo_config_def photos_files_none batches_def batch_loop_def
      merge_index_only del: photos_files.simps)
     (simp add: demo_index_def glob_suffix_def endswith_def)

end
